theory Spec2Isabelle
  imports Complex_Main "HOL-Library.AList" "HOL-Library.Char_ord" "HOL-Library.List_Lexorder"
    "HOL-Library.Product_Lexorder"
begin

section \<open>Conventions of the embedding\<close>

text \<open>
  The development embeds the token-budget core of the repository: the token counter
  (\<^verbatim>\<open>10_core_utils/token_counter.py\<close>), the safety check of the validator
  (\<^verbatim>\<open>10_core_utils/validator.py\<close>), the context store
  (\<^verbatim>\<open>30_context_management/context_manager.py\<close>), the optimizer
  (\<^verbatim>\<open>30_context_management/context_optimizer.py\<close>) and the window builder
  (\<^verbatim>\<open>30_context_management/context_window.py\<close>).

  \<^item> Python \<^verbatim>\<open>int\<close> is \<^typ>\<open>int\<close>; Python \<^verbatim>\<open>float\<close> is \<^typ>\<open>real\<close>, that is,
    floating-point arithmetic is read as exact arithmetic.
  \<^item> A \<^verbatim>\<open>datetime\<close> is an \<^typ>\<open>int\<close>, the number of microseconds since the epoch;
    every \<^verbatim>\<open>datetime.now()\<close> of one call is the parameter \<open>now\<close>.
  \<^item> A \<^verbatim>\<open>str\<close> is a \<^typ>\<open>string\<close> of ASCII characters.
  \<^item> A \<^verbatim>\<open>dict\<close> whose iteration order matters is an association list in insertion order.
  \<^item> Logging is not modelled. A leading underscore of a Python name is dropped.
\<close>

section \<open>Characters and strings\<close>

definition isspace :: "char \<Rightarrow> bool" where
  "isspace c = (let n = (of_char c :: nat) in (9 \<le> n \<and> n \<le> 13) \<or> (28 \<le> n \<and> n \<le> 32))"

definition is_word_char :: "char \<Rightarrow> bool" where
  "is_word_char c = (let n = (of_char c :: nat) in
     (48 \<le> n \<and> n \<le> 57) \<or> (65 \<le> n \<and> n \<le> 90) \<or> n = 95 \<or> (97 \<le> n \<and> n \<le> 122))"

definition lower_char :: "char \<Rightarrow> char" where
  "lower_char c = (let n = (of_char c :: nat) in if 65 \<le> n \<and> n \<le> 90 then char_of (n + 32) else c)"

definition lower :: "string \<Rightarrow> string" where
  "lower s = map lower_char s"

definition strip :: "string \<Rightarrow> string" where
  "strip s = rev (dropWhile isspace (rev (dropWhile isspace s)))"

text \<open>\<^verbatim>\<open>re.sub(r'\s+', ' ', s)\<close>: the flag says that the previous character was white space.\<close>

fun collapse_whitespace :: "bool \<Rightarrow> string \<Rightarrow> string" where
  "collapse_whitespace inws [] = []"
| "collapse_whitespace inws (c # cs) =
     (if isspace c then (if inws then collapse_whitespace True cs
                         else CHR '' '' # collapse_whitespace True cs)
      else c # collapse_whitespace False cs)"

text \<open>
  \<^verbatim>\<open>re.sub(f'\\b{word}\\b', '', s, flags=re.IGNORECASE)\<close> for a word of word characters:
  \<open>prev\<close> says that the character before the position is a word character, \<open>skip\<close>
  counts the characters of a match still to be dropped.
\<close>

fun remove_word :: "string \<Rightarrow> bool \<Rightarrow> nat \<Rightarrow> string \<Rightarrow> string" where
  "remove_word w prev skip [] = []"
| "remove_word w prev skip (c # cs) =
     (if 0 < skip then remove_word w True (skip - 1) cs
      else if \<not> prev \<and> w \<noteq> [] \<and> lower (take (length w) (c # cs)) = lower w
              \<and> (case drop (length w) (c # cs) of [] \<Rightarrow> True | d # _ \<Rightarrow> \<not> is_word_char d)
      then remove_word w True (length w - 1) cs
      else c # remove_word w (is_word_char c) 0 cs)"

text \<open>\<^verbatim>\<open>re.findall(r'\b\w+\b', s)\<close>: the maximal runs of word characters.\<close>

fun findall_words :: "string \<Rightarrow> string \<Rightarrow> string list" where
  "findall_words acc [] = (if acc = [] then [] else [acc])"
| "findall_words acc (c # cs) =
     (if is_word_char c then findall_words (acc @ [c]) cs
      else if acc = [] then findall_words [] cs
      else acc # findall_words [] cs)"

text \<open>\<^verbatim>\<open>text.rfind(sub)\<close>: the highest index at which \<open>sub\<close> starts, or \<open>-1\<close>.\<close>

definition rfind :: "string \<Rightarrow> string \<Rightarrow> int" where
  "rfind text sub =
     (case filter (\<lambda>i. take (length sub) (drop i text) = sub)
             (rev [0 ..< Suc (length text - length sub)]) of
        [] \<Rightarrow> - 1
      | i # _ \<Rightarrow> if length sub \<le> length text then int i else - 1)"

text \<open>\<^verbatim>\<open>int(x)\<close> of a float truncates towards zero.\<close>

definition py_int :: "real \<Rightarrow> int" where
  "py_int x = (if 0 \<le> x then \<lfloor>x\<rfloor> else \<lceil>x\<rceil>)"

text \<open>\<^verbatim>\<open>sorted(xs, key=k, reverse=True)\<close>: stable, descending.\<close>

definition sorted_reverse :: "('a \<Rightarrow> 'k::linorder) \<Rightarrow> 'a list \<Rightarrow> 'a list" where
  "sorted_reverse k xs = rev (sort_key k (rev xs))"

section \<open>Token counter\<close>

text \<open>
  \<^verbatim>\<open>self.tokenizer\<close> is \<open>None\<close> when no tokenizer could be loaded; an encoder that raises
  on a text returns \<open>None\<close> there. Both fall back to one token per four characters.
\<close>

type_synonym tokenizer = "(string \<Rightarrow> nat option) option"

definition count_tokens :: "tokenizer \<Rightarrow> string \<Rightarrow> int" where
  "count_tokens tk text =
     (if text = [] then 0
      else case (case tk of None \<Rightarrow> None | Some enc \<Rightarrow> enc text) of
             Some n \<Rightarrow> int n
           | None \<Rightarrow> max 1 (int (length text) div 4))"

definition model_limits :: "(string \<times> int) list" where
  "model_limits =
     [(''claude-3-sonnet-20241022'', 200000), (''claude-3-haiku-20240307'', 200000),
      (''claude-3-opus-20240229'', 200000), (''gpt-4'', 8192), (''gpt-4-32k'', 32768),
      (''gpt-3.5-turbo'', 4096), (''gpt-3.5-turbo-16k'', 16384)]"

text \<open>Every component builds its counter as \<^verbatim>\<open>TokenCounter()\<close>, with the default model.\<close>

definition default_model :: string where
  "default_model = ''claude-3-sonnet-20241022''"

definition get_model_limit :: "string \<Rightarrow> int" where
  "get_model_limit model = (case map_of model_limits model of Some l \<Rightarrow> l | None \<Rightarrow> 4096)"

definition truncate_at_boundary :: "string \<Rightarrow> string" where
  "truncate_at_boundary text =
     (case filter (\<lambda>e. real_of_int (rfind text e) > real (length text) * 0.8)
             [''.'', ''!'', ''?'', [CHR 0x0A, CHR 0x0A]] of
        e # _ \<Rightarrow> take (nat (rfind text e + int (length e))) text
      | [] \<Rightarrow> (let last_space = rfind text '' '' in
               if real_of_int last_space > real (length text) * 0.9
               then take (nat last_space) text else text))"

function truncate_search :: "tokenizer \<Rightarrow> string \<Rightarrow> int \<Rightarrow> nat \<Rightarrow> nat \<Rightarrow> nat" where
  "truncate_search tk text limit left right =
     (if left < right then
        (let mid = (left + right + 1) div 2 in
         if count_tokens tk (take mid text) \<le> limit
         then truncate_search tk text limit mid right
         else truncate_search tk text limit left (mid - 1))
      else left)"
  by pat_completeness auto
termination
  by (relation "measure (\<lambda>(tk, text, limit, left, right). right - left)") auto

definition truncate_to_limit :: "tokenizer \<Rightarrow> string \<Rightarrow> int \<Rightarrow> string" where
  "truncate_to_limit tk text buffer =
     (let limit = get_model_limit default_model - buffer in
      if count_tokens tk text \<le> limit then text
      else truncate_at_boundary (take (truncate_search tk text limit 0 (length text)) text))"

section \<open>Context items\<close>

record ContextItem =
  ctx_id :: string
  content :: string
  ctx_type :: string
  priority :: int
  timestamp :: int
  metadata :: "(string \<times> string) list"
  token_count :: int
  relevance_score :: real
  expiry :: "int option"
  tags :: "string list"

definition is_expired :: "int \<Rightarrow> ContextItem \<Rightarrow> bool" where
  "is_expired now c = (case expiry c of None \<Rightarrow> False | Some e \<Rightarrow> now > e)"

definition total_tokens :: "ContextItem list \<Rightarrow> int" where
  "total_tokens cs = sum_list (map token_count cs)"

section \<open>Optimizer\<close>

text \<open>The entries of \<^verbatim>\<open>self.config\<close> that the strategies read.\<close>

definition recency_weight :: real where "recency_weight = 0.3"
definition relevance_threshold :: real where "relevance_threshold = 0.5"
definition max_age_hours :: int where "max_age_hours = 168"

definition microseconds_per_hour :: int where
  "microseconds_per_hour = 3600 * 1000000"

definition filler_words :: "string list" where
  "filler_words = [''very'', ''really'', ''quite'', ''rather'', ''somewhat'', ''actually'', ''basically'']"

definition compress_content :: "tokenizer \<Rightarrow> string \<Rightarrow> int \<Rightarrow> string option" where
  "compress_content tk cont max_tokens =
     (if count_tokens tk cont \<le> max_tokens then Some cont
      else
        (let compressed = collapse_whitespace False (strip cont);
             compressed = fold (\<lambda>w s. remove_word w False 0 s) filler_words compressed;
             compressed =
               (if count_tokens tk compressed > max_tokens then
                  (let t = truncate_to_limit tk compressed 500 in
                   t @ (if length t < length cont then CHR 0x0A # ''[...compressed...]'' else []))
                else compressed)
         in if count_tokens tk compressed \<le> max_tokens then Some compressed else None))"

definition try_compress_context :: "tokenizer \<Rightarrow> ContextItem \<Rightarrow> int \<Rightarrow> ContextItem option" where
  "try_compress_context tk c max_tokens =
     (if max_tokens < 50 then None
      else case compress_content tk (content c) max_tokens of
             None \<Rightarrow> None
           | Some compressed_content \<Rightarrow>
               if compressed_content = [] then None
               else Some \<lparr>ctx_id = ctx_id c, content = compressed_content, ctx_type = ctx_type c,
                          priority = max 1 (priority c - 1), timestamp = timestamp c,
                          metadata = metadata c,
                          token_count = count_tokens tk compressed_content,
                          relevance_score = relevance_score c * 0.9, expiry = expiry c,
                          tags = tags c @ [''compressed'']\<rparr>)"

definition filter_active_contexts :: "int \<Rightarrow> ContextItem list \<Rightarrow> ContextItem list" where
  "filter_active_contexts now contexts =
     filter (\<lambda>c. \<not> is_expired now c
                \<and> \<not> (ctx_type c \<noteq> ''system'' \<and> priority c < 8
                      \<and> now - timestamp c > max_age_hours * microseconds_per_hour))
            contexts"

definition type_bonus :: "string \<Rightarrow> real" where
  "type_bonus t =
     (case map_of [(''system'', 1.0), (''instructions'', 0.9), (''conversation'', 0.7),
                   (''memory'', 0.6), (''tool_result'', 0.5)] t of
        Some b \<Rightarrow> b | None \<Rightarrow> 0.5)"

definition composite_score :: "int \<Rightarrow> ContextItem \<Rightarrow> real" where
  "composite_score now c =
     (let age_hours = real_of_int (now - timestamp c) / 1000000 / 3600;
          recency_score = max 0 (1 - age_hours / real_of_int max_age_hours);
          priority_score = real_of_int (priority c) / 10
      in priority_score * 0.4 + recency_score * recency_weight
         + relevance_score c * 0.2 + type_bonus (ctx_type c) * 0.1)"

text \<open>The scores are written into the items, which the result shares with the input.\<close>

definition calculate_composite_scores :: "int \<Rightarrow> ContextItem list \<Rightarrow> ContextItem list" where
  "calculate_composite_scores now contexts =
     sorted_reverse relevance_score
       (map (\<lambda>c. c\<lparr>relevance_score := composite_score now c\<rparr>) contexts)"

text \<open>
  The selection loop of \<^verbatim>\<open>_optimize_hybrid\<close>. The \<^verbatim>\<open>break\<close> belongs to the
  \<^verbatim>\<open>elif\<close> branch: an item that neither fits nor leaves more than 100 tokens of room is
  passed over and the loop goes on.
\<close>

fun hybrid_loop ::
  "tokenizer \<Rightarrow> int \<Rightarrow> ContextItem list \<Rightarrow> ContextItem list \<Rightarrow> int \<Rightarrow> ContextItem list" where
  "hybrid_loop tk remaining_tokens [] selected current_tokens = selected"
| "hybrid_loop tk remaining_tokens (c # cs) selected current_tokens =
     (if current_tokens + token_count c \<le> remaining_tokens
      then hybrid_loop tk remaining_tokens cs (selected @ [c]) (current_tokens + token_count c)
      else if remaining_tokens - current_tokens > 100
      then (case try_compress_context tk c (remaining_tokens - current_tokens) of
              Some compressed_context \<Rightarrow> selected @ [compressed_context]
            | None \<Rightarrow> selected)
      else hybrid_loop tk remaining_tokens cs selected current_tokens)"

definition optimize_hybrid :: "tokenizer \<Rightarrow> int \<Rightarrow> ContextItem list \<Rightarrow> int \<Rightarrow> ContextItem list" where
  "optimize_hybrid tk now contexts target_tokens =
     (let active_contexts = filter_active_contexts now contexts;
          system_contexts = filter (\<lambda>c. ctx_type c = ''system'') active_contexts;
          non_system_contexts = filter (\<lambda>c. ctx_type c \<noteq> ''system'') active_contexts;
          system_tokens = total_tokens system_contexts;
          remaining_tokens = target_tokens - system_tokens
      in if remaining_tokens \<le> 0 then system_contexts
         else hybrid_loop tk remaining_tokens
                (calculate_composite_scores now non_system_contexts)
                system_contexts system_tokens)"

text \<open>
  The items of the caller after \<^verbatim>\<open>_optimize_hybrid\<close> has returned. The strategy builds
  new lists, but the items in them are the objects of its input:
  \<^verbatim>\<open>_calculate_composite_scores\<close> assigns the composite score to \<^verbatim>\<open>relevance_score\<close> of
  every active item that is not a system item, unless the strategy has returned before
  that step because no tokens remain after the system items. An object that occurs twice
  in the list is read as two items.
\<close>

definition hybrid_contexts_after :: "int \<Rightarrow> ContextItem list \<Rightarrow> int \<Rightarrow> ContextItem list" where
  "hybrid_contexts_after now contexts target_tokens =
     (let active_contexts = filter_active_contexts now contexts;
          system_contexts = filter (\<lambda>c. ctx_type c = ''system'') active_contexts;
          system_tokens = total_tokens system_contexts;
          remaining_tokens = target_tokens - system_tokens
      in if remaining_tokens \<le> 0 then contexts
         else map (\<lambda>c. if filter_active_contexts now [c] = [c] \<and> ctx_type c \<noteq> ''system''
                         then c\<lparr>relevance_score := composite_score now c\<rparr> else c) contexts)"

text \<open>
  The fill loop that \<^verbatim>\<open>_optimize_by_priority\<close>, \<^verbatim>\<open>_optimize_by_recency\<close>,
  \<^verbatim>\<open>_optimize_by_semantic_grouping\<close>, the store's \<^verbatim>\<open>optimize_context\<close> and
  \<^verbatim>\<open>estimate_context_items_fit\<close> each write out: take items while they fit, stop at the
  first that does not.
\<close>

fun greedy_fill :: "int \<Rightarrow> ContextItem list \<Rightarrow> int \<Rightarrow> ContextItem list" where
  "greedy_fill target_tokens [] current_tokens = []"
| "greedy_fill target_tokens (c # cs) current_tokens =
     (if current_tokens + token_count c \<le> target_tokens
      then c # greedy_fill target_tokens cs (current_tokens + token_count c)
      else [])"

definition optimize_by_priority :: "ContextItem list \<Rightarrow> int \<Rightarrow> ContextItem list" where
  "optimize_by_priority contexts target_tokens =
     greedy_fill target_tokens (sorted_reverse (\<lambda>x. (priority x, timestamp x)) contexts) 0"

definition optimize_by_recency :: "ContextItem list \<Rightarrow> int \<Rightarrow> ContextItem list" where
  "optimize_by_recency contexts target_tokens =
     greedy_fill target_tokens (sorted_reverse timestamp contexts) 0"

definition long_words :: "ContextItem \<Rightarrow> string list" where
  "long_words c = filter (\<lambda>w. length w > 3) (findall_words [] (lower (content c)))"

definition update_relevance_scores :: "ContextItem list \<Rightarrow> ContextItem list" where
  "update_relevance_scores contexts =
     (let content_frequency = concat (map long_words contexts) in
      map (\<lambda>c. let frequency_score =
                     min 1 (real (sum_list (map (count_list content_frequency) (long_words c))) / 100)
                in c\<lparr>relevance_score := (relevance_score c + frequency_score) / 2\<rparr>)
          contexts)"

fun relevance_loop :: "int \<Rightarrow> ContextItem list \<Rightarrow> ContextItem list \<Rightarrow> int \<Rightarrow> ContextItem list" where
  "relevance_loop target_tokens [] selected current_tokens = selected"
| "relevance_loop target_tokens (c # cs) selected current_tokens =
     (let take_it = (relevance_score c \<ge> relevance_threshold
                     \<and> current_tokens + token_count c \<le> target_tokens);
          selected' = (if take_it then selected @ [c] else selected);
          current_tokens' = (if take_it then current_tokens + token_count c else current_tokens)
      in if current_tokens' \<ge> target_tokens then selected'
         else relevance_loop target_tokens cs selected' current_tokens')"

definition optimize_by_relevance :: "ContextItem list \<Rightarrow> int \<Rightarrow> ContextItem list" where
  "optimize_by_relevance contexts target_tokens =
     relevance_loop target_tokens
       (sorted_reverse relevance_score (update_relevance_scores contexts)) [] 0"

fun compression_loop :: "tokenizer \<Rightarrow> int \<Rightarrow> ContextItem list \<Rightarrow> int \<Rightarrow> ContextItem list" where
  "compression_loop tk target_tokens [] current_tokens = []"
| "compression_loop tk target_tokens (c # cs) current_tokens =
     (if current_tokens + token_count c \<le> target_tokens
      then c # compression_loop tk target_tokens cs (current_tokens + token_count c)
      else (let remaining_tokens = target_tokens - current_tokens in
            if remaining_tokens > 100 then
              (case compress_content tk (content c) remaining_tokens of
                 None \<Rightarrow> []
               | Some compressed_content \<Rightarrow>
                   if compressed_content = [] then []
                   else [c\<lparr>content := compressed_content,
                           token_count := count_tokens tk compressed_content,
                           tags := tags c @ [''compressed'']\<rparr>])
            else []))"

definition optimize_by_compression :: "tokenizer \<Rightarrow> ContextItem list \<Rightarrow> int \<Rightarrow> ContextItem list" where
  "optimize_by_compression tk contexts target_tokens =
     compression_loop tk target_tokens
       (sorted_reverse (\<lambda>x. (priority x, timestamp x)) contexts) 0"

text \<open>
  \<^verbatim>\<open>_group_contexts_semantically\<close>: a \<^verbatim>\<open>defaultdict(list)\<close> keyed by the type and the sorted
  tags joined with underscores; a group is kept as its first member and the later ones.
\<close>

definition group_key :: "ContextItem \<Rightarrow> string" where
  "group_key c = foldl (\<lambda>k t. k @ ''_'' @ t) (ctx_type c) (sort (tags c))"

fun group_insert ::
  "string \<Rightarrow> ContextItem \<Rightarrow> (string \<times> ContextItem \<times> ContextItem list) list
   \<Rightarrow> (string \<times> ContextItem \<times> ContextItem list) list" where
  "group_insert k c [] = [(k, c, [])]"
| "group_insert k c ((k', first, others) # gs) =
     (if k' = k then (k', first, others @ [c]) # gs
      else (k', first, others) # group_insert k c gs)"

definition group_contexts_semantically :: "ContextItem list \<Rightarrow> (ContextItem \<times> ContextItem list) list" where
  "group_contexts_semantically contexts =
     map snd (fold (\<lambda>c gs. group_insert (group_key c) c gs) contexts [])"

text \<open>\<^verbatim>\<open>max(group, key=k)\<close> returns the first of the maximal members.\<close>

definition max_by :: "('a \<Rightarrow> 'k::linorder) \<Rightarrow> 'a \<times> 'a list \<Rightarrow> 'a" where
  "max_by k g = foldl (\<lambda>best y. if k y > k best then y else best) (fst g) (snd g)"

definition optimize_by_semantic_grouping :: "ContextItem list \<Rightarrow> int \<Rightarrow> ContextItem list" where
  "optimize_by_semantic_grouping contexts target_tokens =
     (let groups = group_contexts_semantically contexts;
          ordered = sorted_reverse (\<lambda>g. priority (max_by priority g)) groups
      in greedy_fill target_tokens
           (map (max_by (\<lambda>x. (priority x, relevance_score x, timestamp x))) ordered) 0)"

record OptimizationMetrics =
  tokens_before :: int
  tokens_after :: int
  items_before :: nat
  items_after :: nat
  strategy_used :: string
  compression_ratio :: real

text \<open>\<^verbatim>\<open>OptimizationMetrics(...)\<close> with its \<^verbatim>\<open>__post_init__\<close>; the elapsed time is left out.\<close>

definition make_metrics :: "int \<Rightarrow> int \<Rightarrow> nat \<Rightarrow> nat \<Rightarrow> string \<Rightarrow> OptimizationMetrics" where
  "make_metrics tb ta ib ia strategy =
     \<lparr>tokens_before = tb, tokens_after = ta, items_before = ib, items_after = ia,
      strategy_used = strategy,
      compression_ratio = (if tb > 0 then 1 - real_of_int ta / real_of_int tb else 0)\<rparr>"

text \<open>\<^verbatim>\<open>target_tokens or int(self.max_tokens * 0.9)\<close>: an absent target and the target 0 are both
  replaced by the default.\<close>

definition effective_target :: "int \<Rightarrow> int option \<Rightarrow> int" where
  "effective_target max_tokens target_tokens =
     (case target_tokens of
        None \<Rightarrow> py_int (real_of_int max_tokens * 0.9)
      | Some t \<Rightarrow> if t = 0 then py_int (real_of_int max_tokens * 0.9) else t)"

definition apply_strategy ::
  "tokenizer \<Rightarrow> int \<Rightarrow> string \<Rightarrow> ContextItem list \<Rightarrow> int \<Rightarrow> ContextItem list" where
  "apply_strategy tk now strategy contexts target_tokens =
     (if strategy = ''priority_based'' then optimize_by_priority contexts target_tokens
      else if strategy = ''recency_based'' then optimize_by_recency contexts target_tokens
      else if strategy = ''relevance_based'' then optimize_by_relevance contexts target_tokens
      else if strategy = ''compression'' then optimize_by_compression tk contexts target_tokens
      else if strategy = ''semantic_grouping'' then optimize_by_semantic_grouping contexts target_tokens
      else optimize_hybrid tk now contexts target_tokens)"

definition optimize_contexts ::
  "tokenizer \<Rightarrow> int \<Rightarrow> int \<Rightarrow> ContextItem list \<Rightarrow> int option \<Rightarrow> string
   \<Rightarrow> ContextItem list \<times> OptimizationMetrics" where
  "optimize_contexts tk max_tokens now contexts target strategy =
     (let target_tokens = effective_target max_tokens target;
          tb = total_tokens contexts;
          ib = length contexts
      in if tb \<le> target_tokens then (contexts, make_metrics tb tb ib ib ''none'')
         else (let optimized_contexts = apply_strategy tk now strategy contexts target_tokens
               in (optimized_contexts,
                   make_metrics tb (total_tokens optimized_contexts) ib
                     (length optimized_contexts) strategy)))"

section \<open>Safety check of the validator\<close>

text \<open>\<^verbatim>\<open>pattern in text\<close>, the search of a literal pattern.\<close>

fun contains :: "string \<Rightarrow> string \<Rightarrow> bool" where
  "contains [] pat = (pat = [])"
| "contains (c # cs) pat = (take (length pat) (c # cs) = pat \<or> contains cs pat)"

text \<open>The patterns of \<^verbatim>\<open>is_safe_string\<close> are literals once their escapes are read.\<close>

definition dangerous_patterns :: "string list" where
  "dangerous_patterns =
     [''<script'', ''javascript:'', ''data:text/html'', ''eval('', ''exec('', ''__import__'',
      ''subprocess'', ''os.system'']"

definition is_safe_string :: "string \<Rightarrow> bool" where
  "is_safe_string text = (\<not> list_ex (\<lambda>pattern. contains (lower text) pattern) dangerous_patterns)"

section \<open>Context store\<close>

record ContextManager =
  store_max_tokens :: int
  contexts :: "(string \<times> ContextItem) list"
  context_order :: "string list"
  system_contexts :: "string list"
  conversation_contexts :: "string list"
  memory_contexts :: "string list"
  tool_contexts :: "string list"
  stats_total_items :: nat
  stats_total_tokens :: int
  stats_items_by_type :: "(string \<times> nat) list"
  stats_last_optimization :: "int option"

text \<open>The store as \<^verbatim>\<open>__init__\<close> builds it before it loads a snapshot.\<close>

definition empty_store :: "int \<Rightarrow> ContextManager" where
  "empty_store m =
     \<lparr>store_max_tokens = m, contexts = [], context_order = [], system_contexts = [],
      conversation_contexts = [], memory_contexts = [], tool_contexts = [],
      stats_total_items = 0, stats_total_tokens = 0, stats_items_by_type = [],
      stats_last_optimization = None\<rparr>"

definition get_total_tokens :: "ContextManager \<Rightarrow> int" where
  "get_total_tokens s = total_tokens (map snd (contexts s))"

definition update_stats :: "ContextManager \<Rightarrow> ContextManager" where
  "update_stats s =
     s\<lparr>stats_total_items := length (contexts s),
       stats_total_tokens := total_tokens (map snd (contexts s)),
       stats_items_by_type :=
         fold (\<lambda>c counts. map_default (ctx_type c) 1 Suc counts) (map snd (contexts s)) []\<rparr>"

definition categorize_context :: "ContextItem \<Rightarrow> ContextManager \<Rightarrow> ContextManager" where
  "categorize_context c s =
     (if ctx_type c = ''system'' then s\<lparr>system_contexts := system_contexts s @ [ctx_id c]\<rparr>
      else if ctx_type c \<in> set [''user'', ''assistant'']
      then s\<lparr>conversation_contexts := conversation_contexts s @ [ctx_id c]\<rparr>
      else if ctx_type c = ''memory'' then s\<lparr>memory_contexts := memory_contexts s @ [ctx_id c]\<rparr>
      else if ctx_type c = ''tool_result'' then s\<lparr>tool_contexts := tool_contexts s @ [ctx_id c]\<rparr>
      else s)"

definition remove_from_categories :: "string \<Rightarrow> ContextManager \<Rightarrow> ContextManager" where
  "remove_from_categories context_id s =
     s\<lparr>system_contexts := remove1 context_id (system_contexts s),
       conversation_contexts := remove1 context_id (conversation_contexts s),
       memory_contexts := remove1 context_id (memory_contexts s),
       tool_contexts := remove1 context_id (tool_contexts s)\<rparr>"

definition remove_context :: "string \<Rightarrow> ContextManager \<Rightarrow> ContextManager \<times> bool" where
  "remove_context context_id s =
     (if context_id \<in> set (map fst (contexts s)) then
        (update_stats (remove_from_categories context_id
           (s\<lparr>contexts := AList.delete context_id (contexts s),
              context_order := remove1 context_id (context_order s)\<rparr>)), True)
      else (s, False))"

definition remove_expired_contexts :: "int \<Rightarrow> ContextManager \<Rightarrow> ContextManager" where
  "remove_expired_contexts now s =
     fold (\<lambda>ctx_id s. fst (remove_context ctx_id s))
       (map fst (filter (\<lambda>(k, c). is_expired now c) (contexts s))) s"

text \<open>
  \<^verbatim>\<open>optimize_context\<close> of the store. The ids to remove are a Python set; the removals
  commute, so they are taken in the order of the dictionary.
\<close>

definition optimize_context :: "int \<Rightarrow> int option \<Rightarrow> ContextManager \<Rightarrow> ContextManager" where
  "optimize_context now target s =
     (let target_tokens = effective_target (store_max_tokens s) target;
          current_tokens = get_total_tokens s
      in if current_tokens \<le> target_tokens then s
         else
           (let s1 = remove_expired_contexts now s;
                sorted_contexts =
                  sorted_reverse (\<lambda>x. (priority x, timestamp x)) (map snd (contexts s1));
                contexts_to_keep = map ctx_id (greedy_fill target_tokens sorted_contexts 0);
                contexts_to_remove =
                  filter (\<lambda>k. k \<notin> set contexts_to_keep) (map fst (contexts s1));
                s2 = fold (\<lambda>ctx_id s. fst (remove_context ctx_id s)) contexts_to_remove s1
            in s2\<lparr>stats_last_optimization := Some now\<rparr>))"

text \<open>
  \<^verbatim>\<open>add_context\<close>. The identifier that \<^verbatim>\<open>uuid.uuid4()\<close> draws is the parameter
  \<open>new_id\<close>. The value of \<^verbatim>\<open>is_safe_string(content)\<close> is computed and not read. No
  statement of the body raises on a string, so the \<^verbatim>\<open>except\<close> branch that returns the
  empty identifier is never taken.
\<close>

definition add_context ::
  "tokenizer \<Rightarrow> int \<Rightarrow> string \<Rightarrow> string \<Rightarrow> string \<Rightarrow> int \<Rightarrow> (string \<times> string) list option
   \<Rightarrow> string list option \<Rightarrow> int option \<Rightarrow> ContextManager \<Rightarrow> ContextManager \<times> string" where
  "add_context tk now new_id cont context_type prio meta tgs expires s =
     (let safe = is_safe_string cont;
          n = count_tokens tk cont;
          context_item =
            \<lparr>ctx_id = new_id, content = cont, ctx_type = context_type, priority = prio,
             timestamp = now, metadata = (case meta of None \<Rightarrow> [] | Some m \<Rightarrow> m),
             token_count = n, relevance_score = 1, expiry = expires,
             tags = (case tgs of None \<Rightarrow> [] | Some t \<Rightarrow> t)\<rparr>;
          s1 = s\<lparr>contexts := AList.update new_id context_item (contexts s),
                 context_order := context_order s @ [new_id]\<rparr>;
          s2 = update_stats (categorize_context context_item s1);
          s3 = (if get_total_tokens s2 > store_max_tokens s2 then optimize_context now None s2 else s2)
      in (s3, new_id))"


definition get_contexts_by_type :: "ContextManager \<Rightarrow> string \<Rightarrow> ContextItem list" where
  "get_contexts_by_type s context_type =
     filter (\<lambda>c. ctx_type c = context_type) (map snd (contexts s))"

definition get_contexts_by_priority :: "ContextManager \<Rightarrow> int \<Rightarrow> ContextItem list" where
  "get_contexts_by_priority s min_priority =
     sorted_reverse (\<lambda>x. (priority x, timestamp x))
       (filter (\<lambda>c. priority c \<ge> min_priority) (map snd (contexts s)))"

text \<open>\<^verbatim>\<open>contexts[:limit]\<close> when \<^verbatim>\<open>limit\<close> is neither \<open>None\<close> nor 0.\<close>

definition slice_to :: "int \<Rightarrow> 'a list \<Rightarrow> 'a list" where
  "slice_to limit xs = (if 0 \<le> limit then take (nat limit) xs else take (length xs - nat (- limit)) xs)"

definition get_recent_contexts :: "int \<Rightarrow> ContextManager \<Rightarrow> int \<Rightarrow> int option \<Rightarrow> ContextItem list" where
  "get_recent_contexts now s hours limit =
     (let cutoff = now - hours * microseconds_per_hour;
          found = sorted_reverse timestamp
                    (filter (\<lambda>c. timestamp c > cutoff) (map snd (contexts s)))
      in case limit of None \<Rightarrow> found
         | Some l \<Rightarrow> if l = 0 then found else slice_to l found)"

definition search_contexts ::
  "int \<Rightarrow> ContextManager \<Rightarrow> string \<Rightarrow> string option \<Rightarrow> string list option \<Rightarrow> ContextItem list" where
  "search_contexts now s query context_type tgs =
     sorted_reverse (\<lambda>x. (priority x, timestamp x))
       (filter (\<lambda>c. \<not> is_expired now c
                  \<and> (case context_type of None \<Rightarrow> True
                      | Some t \<Rightarrow> t = [] \<or> ctx_type c = t)
                  \<and> (case tgs of None \<Rightarrow> True
                      | Some ts \<Rightarrow> ts = [] \<or> list_ex (\<lambda>tag. tag \<in> set (tags c)) ts)
                  \<and> contains (lower (content c)) (lower query))
          (map snd (contexts s)))"

text \<open>The items that \<^verbatim>\<open>get_context_window\<close> renders, in the order of the rendering.\<close>

definition context_window_items :: "int \<Rightarrow> ContextManager \<Rightarrow> int option \<Rightarrow> ContextItem list" where
  "context_window_items now s limit =
     (let limit_tokens = (case limit of None \<Rightarrow> store_max_tokens s
                          | Some l \<Rightarrow> if l = 0 then store_max_tokens s else l)
      in greedy_fill limit_tokens
           (sorted_reverse (\<lambda>x. (priority x, timestamp x))
              (filter (\<lambda>c. \<not> is_expired now c) (map snd (contexts s)))) 0)"

definition upper_char :: "char \<Rightarrow> char" where
  "upper_char c = (let n = (of_char c :: nat) in if 97 \<le> n \<and> n \<le> 122 then char_of (n - 32) else c)"

fun str_nat :: "nat \<Rightarrow> string" where
  "str_nat n = (if n < 10 then [char_of (48 + n)] else str_nat (n div 10) @ [char_of (48 + n mod 10)])"

definition str_int :: "int \<Rightarrow> string" where
  "str_int i = (if i < 0 then CHR ''-'' # str_nat (nat (- i)) else str_nat (nat i))"

fun join :: "string \<Rightarrow> string list \<Rightarrow> string" where
  "join sep [] = []"
| "join sep [x] = x"
| "join sep (x # y # ys) = x @ sep @ join sep (y # ys)"

definition format_context_item :: "ContextItem \<Rightarrow> string" where
  "format_context_item c =
     ''['' @ map upper_char (ctx_type c) @ '']''
     @ (if priority c > 1 then '' #'' @ str_int (priority c) else [])
     @ (if tags c \<noteq> [] then '' Tags: '' @ join '', '' (tags c) else [])
     @ [CHR 0x0A] @ content c"

definition get_context_window :: "int \<Rightarrow> ContextManager \<Rightarrow> int option \<Rightarrow> string" where
  "get_context_window now s limit =
     join [CHR 0x0A, CHR 0x0A] (map format_context_item (context_window_items now s limit))"

subsection \<open>Loading a snapshot\<close>

datatype py_error = TypeError | ValueError | AttributeError | ZeroDivisionError

text \<open>
  What \<^verbatim>\<open>_load_context\<close> finds. The JSON decoder and the dataclass constructor are
  library code: a snapshot is given by what they return. An entry of \<open>snap_contexts\<close> is
  a key of the \<^verbatim>\<open>contexts\<close> object with the outcome of \<^verbatim>\<open>ContextItem.from_dict\<close> on
  its value, the item or the exception raised (an unknown field name, a time stamp that
  does not parse). \<open>snap_stats\<close> is the outcome of \<^verbatim>\<open>self.stats.update\<close>: an exception, or
  the new item and token totals if the snapshot has them.
\<close>

record snapshot =
  snap_contexts :: "(string \<times> (py_error + ContextItem)) list"
  snap_context_order :: "string list"
  snap_stats :: "py_error + (nat \<times> int) option"

datatype snapshot_file =
    FileMissing
  | FileUnreadable
  | FileNotAnObject
  | FileData snapshot

text \<open>
  \<open>FileMissing\<close>: the path does not exist. \<open>FileUnreadable\<close>: \<^verbatim>\<open>load_json\<close> returns
  \<open>None\<close> (the file cannot be read or is not JSON) or an empty value. \<open>FileNotAnObject\<close>:
  the JSON value, or its \<^verbatim>\<open>contexts\<close> member, is not an object, so the first access
  raises.
\<close>

fun load_entries ::
  "(string \<times> (py_error + ContextItem)) list \<Rightarrow> (string \<times> ContextItem) list
   \<Rightarrow> (string \<times> ContextItem) list \<times> py_error option" where
  "load_entries [] cs = (cs, None)"
| "load_entries ((k, Inl e) # rest) cs = (cs, Some e)"
| "load_entries ((k, Inr c) # rest) cs = load_entries rest (AList.update k c cs)"

definition load_context :: "snapshot_file \<Rightarrow> ContextManager \<Rightarrow> ContextManager \<times> bool" where
  "load_context file s =
     (case file of
        FileMissing \<Rightarrow> (s, True)
      | FileUnreadable \<Rightarrow> (s, False)
      | FileNotAnObject \<Rightarrow> (s, False)
      | FileData d \<Rightarrow>
          (case load_entries (snap_contexts d) (contexts s) of
             (cs, Some e) \<Rightarrow> (s\<lparr>contexts := cs\<rparr>, False)
           | (cs, None) \<Rightarrow>
               (let s1 = s\<lparr>contexts := cs, context_order := snap_context_order d\<rparr> in
                case snap_stats d of
                  Inl e \<Rightarrow> (s1, False)
                | Inr st \<Rightarrow>
                    (let s2 = (case st of None \<Rightarrow> s1
                               | Some (n, t) \<Rightarrow> s1\<lparr>stats_total_items := n, stats_total_tokens := t\<rparr>)
                     in (fold categorize_context (map snd cs) s2, True)))))"

text \<open>\<^verbatim>\<open>ContextManager(agent_id, max_tokens)\<close>: the empty store, then the load.\<close>

definition new_store :: "int \<Rightarrow> snapshot_file \<Rightarrow> ContextManager" where
  "new_store m file = fst (load_context file (empty_store m))"

subsection \<open>Well-formed stores\<close>


section \<open>Window builder\<close>

record WindowSection =
  name :: string
  section_content :: string
  section_priority :: int
  section_tokens :: int
  required :: bool

text \<open>What a call does: it returns, it raises, or its loop never ends.\<close>

datatype 'a outcome = Returns 'a | Raises py_error | Loops

definition section_priorities :: "(string \<times> int) list" where
  "section_priorities =
     [(''system'', 10), (''instructions'', 9), (''tools'', 8), (''recent_conversation'', 7),
      (''relevant_memory'', 6), (''context_data'', 5), (''background'', 4), (''examples'', 3),
      (''metadata'', 2), (''debug'', 1)]"

definition response_buffer :: int where
  "response_buffer = 4000"

text \<open>The loop of \<^verbatim>\<open>_truncate_section\<close> that cuts the text to nine tenths of its length
  until it counts at most \<open>max_tokens\<close>.\<close>

partial_function (option) shrink_loop :: "tokenizer \<Rightarrow> int \<Rightarrow> string \<Rightarrow> string option" where
  "shrink_loop tk max_tokens truncated_content =
     (if count_tokens tk truncated_content > max_tokens
      then shrink_loop tk max_tokens
             (take (nat (py_int (real (length truncated_content) * 0.9))) truncated_content)
      else Some truncated_content)"

definition truncate_section ::
  "tokenizer \<Rightarrow> WindowSection \<Rightarrow> int \<Rightarrow> WindowSection option outcome" where
  "truncate_section tk sec max_tokens =
     (if max_tokens < 50 then Returns None
      else case shrink_loop tk max_tokens (truncate_to_limit tk (section_content sec) 0) of
             None \<Rightarrow> Loops
           | Some truncated_content \<Rightarrow>
               Returns (Some
                 \<lparr>name = name sec @ ''_truncated'',
                  section_content =
                    (if length truncated_content < length (section_content sec)
                     then truncated_content @ CHR 0x0A # ''[...truncated...]''
                     else truncated_content),
                  section_priority = section_priority sec,
                  section_tokens = count_tokens tk truncated_content,
                  required = required sec\<rparr>))"

text \<open>\<^verbatim>\<open>int(max_tokens * (section.priority / total_priority))\<close>, for a total that is not 0.\<close>

definition allocated_tokens :: "int \<Rightarrow> int \<Rightarrow> WindowSection \<Rightarrow> int" where
  "allocated_tokens max_tokens total_priority sec =
     py_int (real_of_int max_tokens
             * (real_of_int (section_priority sec) / real_of_int total_priority))"

fun truncate_each ::
  "tokenizer \<Rightarrow> int \<Rightarrow> int \<Rightarrow> WindowSection list \<Rightarrow> WindowSection list outcome" where
  "truncate_each tk max_tokens total_priority [] = Returns []"
| "truncate_each tk max_tokens total_priority (sec # rest) =
     (if total_priority = 0 then Raises ZeroDivisionError
      else
        (let allocated = allocated_tokens max_tokens total_priority sec in
         case (if allocated < section_tokens sec then truncate_section tk sec allocated
               else Returns (Some sec)) of
           Loops \<Rightarrow> Loops
         | Raises e \<Rightarrow> Raises e
         | Returns r \<Rightarrow>
             (case truncate_each tk max_tokens total_priority rest of
                Returns out \<Rightarrow> Returns ((case r of None \<Rightarrow> [] | Some t \<Rightarrow> [t]) @ out)
              | Raises e \<Rightarrow> Raises e
              | Loops \<Rightarrow> Loops)))"

definition truncate_sections ::
  "tokenizer \<Rightarrow> WindowSection list \<Rightarrow> int \<Rightarrow> WindowSection list outcome" where
  "truncate_sections tk sections max_tokens =
     (if sections = [] then Returns sections
      else truncate_each tk max_tokens (sum_list (map section_priority sections)) sections)"

fun optional_loop ::
  "tokenizer \<Rightarrow> int \<Rightarrow> WindowSection list \<Rightarrow> int \<Rightarrow> WindowSection list outcome" where
  "optional_loop tk max_tokens [] current_tokens = Returns []"
| "optional_loop tk max_tokens (sec # rest) current_tokens =
     (if current_tokens + section_tokens sec \<le> max_tokens
      then (case optional_loop tk max_tokens rest (current_tokens + section_tokens sec) of
              Returns out \<Rightarrow> Returns (sec # out)
            | Raises e \<Rightarrow> Raises e
            | Loops \<Rightarrow> Loops)
      else (let remaining_tokens = max_tokens - current_tokens in
            if remaining_tokens > 100 then
              (case truncate_section tk sec remaining_tokens of
                 Returns r \<Rightarrow> Returns (case r of None \<Rightarrow> [] | Some t \<Rightarrow> [t])
               | Raises e \<Rightarrow> Raises e
               | Loops \<Rightarrow> Loops)
            else Returns []))"

definition optimize_sections ::
  "tokenizer \<Rightarrow> WindowSection list \<Rightarrow> int \<Rightarrow> WindowSection list outcome" where
  "optimize_sections tk sections max_tokens =
     (let required_sections = filter required sections;
          optional_sections = filter (\<lambda>s. \<not> required s) sections;
          required_tokens = sum_list (map section_tokens required_sections)
      in if required_tokens > max_tokens
         then truncate_sections tk required_sections max_tokens
         else (case optional_loop tk max_tokens
                      (sorted_reverse section_priority optional_sections) required_tokens of
                 Returns out \<Rightarrow> Returns (required_sections @ out)
               | Raises e \<Rightarrow> Raises e
               | Loops \<Rightarrow> Loops))"

text \<open>The sections that \<^verbatim>\<open>build_window\<close> makes of its dictionary of texts.\<close>

definition make_sections ::
  "tokenizer \<Rightarrow> (string \<times> string) list \<Rightarrow> string list option \<Rightarrow> WindowSection list" where
  "make_sections tk sections required_sections =
     (let req = (case required_sections of None \<Rightarrow> [''system'', ''instructions'']
                 | Some r \<Rightarrow> if r = [] then [''system'', ''instructions''] else r)
      in map (\<lambda>(nm, cont).
                \<lparr>name = nm, section_content = cont,
                 section_priority = (case map_of section_priorities nm of Some p \<Rightarrow> p | None \<Rightarrow> 5),
                 section_tokens = count_tokens tk cont,
                 required = (nm \<in> set req)\<rparr>) sections)"

definition format_window :: "WindowSection list \<Rightarrow> string" where
  "format_window sections =
     join [CHR 0x0A]
       (map (\<lambda>s. ''=== '' @ map upper_char (name s) @ '' ==='' @ [CHR 0x0A]
                  @ section_content s @ [CHR 0x0A])
          (sorted_reverse section_priority sections))"

definition build_window ::
  "tokenizer \<Rightarrow> int \<Rightarrow> (string \<times> string) list \<Rightarrow> string list option \<Rightarrow> string outcome" where
  "build_window tk window_max_tokens sections required_sections =
     (case optimize_sections tk (make_sections tk sections required_sections)
             (window_max_tokens - response_buffer) of
        Returns out \<Rightarrow> Returns (format_window out)
      | Raises e \<Rightarrow> Raises e
      | Loops \<Rightarrow> Loops)"

section \<open>Inputs of the scenarios\<close>

text \<open>The three items of the hybrid scenario of the specification, all stamped \<open>now\<close>.\<close>

definition scenario_A :: "int \<Rightarrow> ContextItem" where
  "scenario_A now =
     \<lparr>ctx_id = ''A'', content = ''system prompt'', ctx_type = ''system'', priority = 9,
      timestamp = now, metadata = [], token_count = 800, relevance_score = 1, expiry = None,
      tags = []\<rparr>"

definition scenario_B :: "int \<Rightarrow> ContextItem" where
  "scenario_B now =
     \<lparr>ctx_id = ''B'', content = ''conversation'', ctx_type = ''conversation'', priority = 5,
      timestamp = now, metadata = [], token_count = 500, relevance_score = 1, expiry = None,
      tags = []\<rparr>"

definition scenario_C :: "int \<Rightarrow> ContextItem" where
  "scenario_C now =
     \<lparr>ctx_id = ''C'', content = ''memory'', ctx_type = ''memory'', priority = 3,
      timestamp = now, metadata = [], token_count = 400, relevance_score = 1, expiry = None,
      tags = []\<rparr>"

text \<open>A text of 400 letters without white space, 100 tokens for the fallback estimator.\<close>

definition long_word :: string where
  "long_word = replicate 400 (CHR ''x'')"

definition long_word_item :: ContextItem where
  "long_word_item =
     \<lparr>ctx_id = ''W'', content = long_word, ctx_type = ''conversation'', priority = 5,
      timestamp = 0, metadata = [], token_count = 100, relevance_score = 1, expiry = None,
      tags = []\<rparr>"

text \<open>A store that was given one item whose expiry, 500, lies before the time of the reads, 1000.\<close>

definition expired_item :: ContextItem where
  "expired_item =
     \<lparr>ctx_id = ''id-1'', content = ''old note'', ctx_type = ''memory'', priority = 5,
      timestamp = 400, metadata = [], token_count = 2, relevance_score = 1, expiry = Some 500,
      tags = []\<rparr>"

definition expired_store :: ContextManager where
  "expired_store =
     fst (add_context None 400 ''id-1'' ''old note'' ''memory'' 5 None None (Some 500)
            (empty_store 100000))"

text \<open>A snapshot whose first entry decodes and whose second entry has a field that
  \<^verbatim>\<open>ContextItem\<close> does not know.\<close>

definition half_good_snapshot :: snapshot where
  "half_good_snapshot =
     \<lparr>snap_contexts = [(''A'', Inr (scenario_A 0)), (''B'', Inl TypeError)],
      snap_context_order = [''A'', ''B''], snap_stats = Inr None\<rparr>"

text \<open>A general item of 5 tokens, a second system item and a system item whose expiry, 500,
  has passed at the time 1000.\<close>

definition small_item :: ContextItem where
  "small_item =
     \<lparr>ctx_id = ''G'', content = ''a short general note'', ctx_type = ''general'', priority = 1,
      timestamp = 0, metadata = [], token_count = 5, relevance_score = 1, expiry = None,
      tags = []\<rparr>"

definition scenario_S2 :: "int \<Rightarrow> ContextItem" where
  "scenario_S2 now =
     \<lparr>ctx_id = ''S2'', content = ''second system prompt'', ctx_type = ''system'', priority = 8,
      timestamp = now, metadata = [], token_count = 800, relevance_score = 1, expiry = None,
      tags = []\<rparr>"

definition expired_system_item :: ContextItem where
  "expired_system_item =
     \<lparr>ctx_id = ''E'', content = ''old system prompt'', ctx_type = ''system'', priority = 9,
      timestamp = 400, metadata = [], token_count = 800, relevance_score = 1, expiry = Some 500,
      tags = []\<rparr>"

text \<open>A text of 800 characters, 200 tokens for the fallback estimator, that is the letter
  \<open>a\<close>, 798 blanks and the letter \<open>b\<close>, and an item that holds it.\<close>

definition spaced_text :: string where
  "spaced_text = CHR ''a'' # CHR '' '' # replicate 797 (CHR '' '') @ ''b''"

definition spaced_item :: ContextItem where
  "spaced_item =
     \<lparr>ctx_id = ''B'', content = spaced_text, ctx_type = ''conversation'', priority = 5,
      timestamp = 0, metadata = [], token_count = 200, relevance_score = 1, expiry = None,
      tags = []\<rparr>"







section \<open>The hybrid strategy\<close>

lemma hybrid_loop_passes_over:
  "\<forall>c\<in>set cs. \<not> cur + token_count c \<le> rem \<Longrightarrow> \<not> rem - cur > 100 \<Longrightarrow>
   hybrid_loop tk rem cs sel cur = sel"
  by (induction cs) auto

lemma scenario_hybrid:
  "optimize_hybrid tk now [scenario_A now, scenario_B now, scenario_C now] 1000 = [scenario_A now]"
  unfolding optimize_hybrid_def Let_def
  apply (subst hybrid_loop_passes_over)
    apply (simp_all add: filter_active_contexts_def is_expired_def scenario_A_def scenario_B_def
      scenario_C_def total_tokens_def calculate_composite_scores_def sorted_reverse_def)
  done

text \<open>
  Claim C2 (hybrid scenario). The specification expects, for A (system, 800 tokens),
  B (conversation, 500 tokens) and C (memory, 400 tokens) under a target of 1000 tokens, the
  result A together with B compressed to at most 200 tokens. The code returns A alone,
  for every tokenizer and every \<open>now\<close>: the loop starts its count at the 800 system tokens
  and compares it with the 200 tokens that remain after them, so B neither fits
  (800 + 500 > 200) nor is compressed (200 - 800 is not above 100), and C is passed over
  in the same way.
\<close>

theorem C2_hybrid_scenario_returns_only_A:
  "fst (optimize_contexts tk 1000 now [scenario_A now, scenario_B now, scenario_C now]
          (Some 1000) ''hybrid'') = [scenario_A now]"
  apply (simp add: optimize_contexts_def effective_target_def Let_def apply_strategy_def
      scenario_hybrid)
  apply (simp add: total_tokens_def scenario_A_def scenario_B_def scenario_C_def)
  done

section \<open>The compression fallback\<close>

lemma dropWhile_none: "\<forall>c\<in>set s. \<not> P c \<Longrightarrow> dropWhile P s = s"
  by (cases s) auto

lemma strip_no_space: "\<forall>c\<in>set s. \<not> isspace c \<Longrightarrow> strip s = s"
  by (simp add: strip_def dropWhile_none)

lemma collapse_no_space: "\<forall>c\<in>set s. \<not> isspace c \<Longrightarrow> collapse_whitespace b s = s"
  by (induction s arbitrary: b) auto

lemma remove_word_no_start:
  "w \<noteq> [] \<Longrightarrow> \<forall>c\<in>set s. lower_char c \<noteq> lower_char (hd w) \<Longrightarrow> remove_word w prev 0 s = s"
proof (induction s arbitrary: prev)
  case Nil
  then show ?case by simp
next
  case (Cons c cs)
  then obtain a w' where w: "w = a # w'" by (cases w) auto
  with Cons show ?case by (auto simp: lower_def)
qed

text \<open>
  A text without white space and without a letter that starts a filler word is left as it
  is by the first two steps. If it measures more than the budget and at most the 199500
  tokens of the model limit less the default buffer, \<^verbatim>\<open>truncate_to_limit\<close>, which is called
  without the budget, leaves it as it is too, and the final test gives it up.
\<close>

lemma compress_content_gives_up:
  assumes ns: "\<forall>c\<in>set s. \<not> isspace c"
    and nf: "\<forall>c\<in>set s. lower_char c \<notin> set ''vrqsab''"
    and big: "max_tokens < count_tokens tk s" and small: "count_tokens tk s \<le> 199500"
  shows "compress_content tk s max_tokens = None"
proof -
  have 1: "collapse_whitespace False (strip s) = s"
    using ns by (simp add: strip_no_space collapse_no_space)
  have 2: "fold (\<lambda>w s. remove_word w False 0 s) filler_words s = s"
    using nf by (simp add: filler_words_def remove_word_no_start lower_char_def)
  have 3: "truncate_to_limit tk s 500 = s"
    using small
    by (simp add: truncate_to_limit_def get_model_limit_def default_model_def model_limits_def)
  show ?thesis using big by (simp add: compress_content_def 1 2 3)
qed

lemma count_long_word: "count_tokens None long_word = 100"
  by (simp add: count_tokens_def long_word_def)

lemma compress_long_word: "compress_content None long_word 60 = None"
  by (rule compress_content_gives_up)
     (simp_all add: count_long_word, simp_all add: long_word_def isspace_def lower_char_def)

text \<open>
  Claim C7 (compression fallback contract). The claim has the fallback hard-truncate the
  content to the token budget whenever the budget is at least 50, so that a content of at
  most that measure is returned. The code returns no result below 50, as claimed, but it
  never truncates to the budget: a text of 400 letters (100 tokens for the fallback
  estimator) under a budget of 60 tokens is neither shortened nor returned, and the item
  is dropped.
\<close>

theorem C7_no_truncation_to_budget:
  "count_tokens None long_word = 100
   \<and> compress_content None long_word 60 = None
   \<and> try_compress_context None long_word_item 60 = None
   \<and> try_compress_context None long_word_item 49 = None"
  by (simp add: count_long_word compress_long_word try_compress_context_def long_word_item_def)

section \<open>The store\<close>

text \<open>
  Claim C3 (unsafe content). The claim has \<^verbatim>\<open>add\<close> reject a content that the safety
  checker deems unsafe and leave the store unchanged. The code calls the checker and does
  not read its answer: the content \<^verbatim>\<open><script>alert(1)</script>\<close> is unsafe, and adding
  it to the empty store returns the new identifier and stores the item, in the item map,
  the order, the conversation index and the token total.
\<close>

theorem C3_unsafe_content_is_stored:
  "\<not> is_safe_string ''<script>alert(1)</script>''
   \<and> snd (add_context None 0 ''id-1'' ''<script>alert(1)</script>'' ''user'' 1 None None None
            (empty_store 100000)) = ''id-1''
   \<and> map fst (contexts (fst (add_context None 0 ''id-1'' ''<script>alert(1)</script>'' ''user'' 1
            None None None (empty_store 100000)))) = [''id-1'']
   \<and> conversation_contexts (fst (add_context None 0 ''id-1'' ''<script>alert(1)</script>''
            ''user'' 1 None None None (empty_store 100000))) = [''id-1'']
   \<and> stats_total_tokens (fst (add_context None 0 ''id-1'' ''<script>alert(1)</script>''
            ''user'' 1 None None None (empty_store 100000))) = 6"
  by (simp add: is_safe_string_def dangerous_patterns_def lower_def lower_char_def
      add_context_def Let_def empty_store_def update_stats_def categorize_context_def
      get_total_tokens_def total_tokens_def count_tokens_def)

lemma contexts_expired_store: "contexts expired_store = [(''id-1'', expired_item)]"
  by (simp add: expired_store_def expired_item_def add_context_def Let_def empty_store_def
      update_stats_def categorize_context_def get_total_tokens_def total_tokens_def
      count_tokens_def)

text \<open>
  Claim C5 (expiry exclusion). The claim has an expired item appear in the result of no
  read of the store. \<^verbatim>\<open>search_contexts\<close> and \<^verbatim>\<open>get_context_window\<close> skip expired items;
  \<^verbatim>\<open>get_contexts_by_type\<close>, \<^verbatim>\<open>get_contexts_by_priority\<close> and \<^verbatim>\<open>get_recent_contexts\<close> do not
  look at the expiry: at time 1000 each of them returns the item that expired at 500.
\<close>

theorem C5_expired_item_is_served:
  "is_expired 1000 expired_item
   \<and> get_contexts_by_type expired_store ''memory'' = [expired_item]
   \<and> get_contexts_by_priority expired_store 1 = [expired_item]
   \<and> get_recent_contexts 1000 expired_store 24 None = [expired_item]
   \<and> search_contexts 1000 expired_store ''old'' None None = []
   \<and> context_window_items 1000 expired_store None = []"
  by (simp add: contexts_expired_store get_contexts_by_type_def get_contexts_by_priority_def
      get_recent_contexts_def search_contexts_def context_window_items_def sorted_reverse_def
      microseconds_per_hour_def, simp add: expired_item_def is_expired_def)

text \<open>
  Claim C9 (load atomicity). The claim has a load of a missing or corrupt snapshot never
  raise and leave the store empty. The load never raises, and a missing or unreadable
  file leaves the store as it was. A snapshot whose second entry does not decode makes
  the load fail after the first entry has been written into the item map: the store is
  left with that item, outside the order and the category indices.
\<close>

theorem C9_partial_load:
  "load_context (FileData half_good_snapshot) (empty_store 100000)
     = ((empty_store 100000)\<lparr>contexts := [(''A'', scenario_A 0)]\<rparr>, False)
   \<and> contexts (new_store 100000 (FileData half_good_snapshot)) \<noteq> []
   \<and> context_order (new_store 100000 (FileData half_good_snapshot)) = []
   \<and> system_contexts (new_store 100000 (FileData half_good_snapshot)) = []
   \<and> new_store 100000 FileMissing = empty_store 100000
   \<and> new_store 100000 FileUnreadable = empty_store 100000
   \<and> new_store 100000 FileNotAnObject = empty_store 100000"
  by (simp add: load_context_def new_store_def half_good_snapshot_def empty_store_def)

section \<open>Budget of the strategies\<close>

lemma total_tokens_simps [simp]:
  "total_tokens [] = 0" "total_tokens (c # cs) = token_count c + total_tokens cs"
  "total_tokens (xs @ ys) = total_tokens xs + total_tokens ys"
  by (simp_all add: total_tokens_def)

lemma greedy_fill_budget: "cur \<le> T \<Longrightarrow> cur + total_tokens (greedy_fill T xs cur) \<le> T"
proof (induction xs arbitrary: cur)
  case Nil
  then show ?case by simp
next
  case (Cons c cs)
  show ?case
  proof (cases "cur + token_count c \<le> T")
    case True
    from Cons.IH [OF True] True show ?thesis by simp
  next
    case False
    with Cons.prems show ?thesis by simp
  qed
qed

lemma greedy_fill_budget0: "total_tokens (greedy_fill T xs 0) \<le> T \<or> greedy_fill T xs 0 = []"
proof (cases xs)
  case Nil
  then show ?thesis by simp
next
  case (Cons c cs)
  show ?thesis
  proof (cases "token_count c \<le> T")
    case True
    from greedy_fill_budget [OF True, of cs] True Cons show ?thesis by simp
  next
    case False
    with Cons show ?thesis by simp
  qed
qed

lemma compress_content_fits: "compress_content tk s m = Some t \<Longrightarrow> count_tokens tk t \<le> m"
  unfolding compress_content_def Let_def by (simp split: if_splits)

lemma try_compress_fits: "try_compress_context tk c m = Some c' \<Longrightarrow> token_count c' \<le> m"
  unfolding try_compress_context_def
  by (auto split: if_splits option.splits dest: compress_content_fits)

lemma compression_loop_budget:
  "cur \<le> T \<Longrightarrow> cur + total_tokens (compression_loop tk T xs cur) \<le> T"
proof (induction xs arbitrary: cur)
  case Nil
  then show ?case by simp
next
  case (Cons c cs)
  show ?case
  proof (cases "cur + token_count c \<le> T")
    case True
    from Cons.IH [OF True] True show ?thesis by simp
  next
    case False
    show ?thesis
    proof (cases "compress_content tk (content c) (T - cur)")
      case None
      with False Cons.prems show ?thesis by (simp add: Let_def)
    next
      case (Some t)
      from compress_content_fits [OF Some] False Cons.prems Some show ?thesis
        by (simp add: Let_def)
    qed
  qed
qed

lemma compression_loop_budget0:
  "total_tokens (compression_loop tk T xs 0) \<le> T \<or> compression_loop tk T xs 0 = []"
proof (cases "0 \<le> T")
  case True
  from compression_loop_budget [OF True, of tk xs] show ?thesis by simp
next
  case False
  show ?thesis
  proof (cases xs)
    case Nil
    then show ?thesis by simp
  next
    case (Cons c cs)
    show ?thesis
    proof (cases "token_count c \<le> T")
      case True
      from compression_loop_budget [OF True, of tk cs] True Cons show ?thesis by simp
    next
      case F: False
      with False Cons show ?thesis by (simp add: Let_def)
    qed
  qed
qed

lemma relevance_loop_Cons:
  "relevance_loop T (c # cs) sel cur =
     (if relevance_score c \<ge> relevance_threshold \<and> cur + token_count c \<le> T
      then (if cur + token_count c \<ge> T then sel @ [c]
            else relevance_loop T cs (sel @ [c]) (cur + token_count c))
      else (if cur \<ge> T then sel else relevance_loop T cs sel cur))"
  by (simp add: Let_def)

lemma relevance_loop_budget:
  "total_tokens sel = cur \<Longrightarrow> cur \<le> T \<Longrightarrow> total_tokens (relevance_loop T xs sel cur) \<le> T"
proof (induction xs arbitrary: sel cur)
  case Nil
  then show ?case by simp
next
  case (Cons c cs)
  show ?case
  proof (cases "relevance_score c \<ge> relevance_threshold \<and> cur + token_count c \<le> T")
    case True
    have "total_tokens (sel @ [c]) = cur + token_count c" using Cons.prems by simp
    from Cons.IH [OF this] True this show ?thesis
      by (simp only: relevance_loop_Cons if_True split: if_split) simp
  next
    case False
    from Cons.IH [OF Cons.prems] Cons.prems False show ?thesis
      by (simp only: relevance_loop_Cons if_False split: if_split) simp
  qed
qed

lemma relevance_loop_budget0:
  "total_tokens (relevance_loop T xs [] 0) \<le> T \<or> relevance_loop T xs [] 0 = []"
proof (induction xs)
  case Nil
  then show ?case by simp
next
  case (Cons c cs)
  show ?case
  proof (cases "relevance_score c \<ge> relevance_threshold \<and> 0 + token_count c \<le> T")
    case True
    have "total_tokens ([] @ [c]) = 0 + token_count c" by simp
    from relevance_loop_budget [OF this, of T cs] True show ?thesis
      by (simp only: relevance_loop_Cons if_True split: if_split) simp
  next
    case False
    with Cons show ?thesis
      by (simp only: relevance_loop_Cons if_False split: if_split) simp
  qed
qed

lemma total_tokens_nonneg:
  "\<forall>c\<in>set xs. 0 \<le> token_count c \<Longrightarrow> 0 \<le> total_tokens xs"
  by (induction xs) auto

lemma total_tokens_filter_le:
  "\<forall>c\<in>set xs. 0 \<le> token_count c \<Longrightarrow> total_tokens (filter P xs) \<le> total_tokens xs"
  by (induction xs) auto

lemma hybrid_loop_budget:
  "total_tokens (hybrid_loop tk rem xs sel (total_tokens sel)) \<le> max (total_tokens sel) rem"
proof (induction xs arbitrary: sel)
  case Nil
  then show ?case by simp
next
  case (Cons c cs)
  show ?case
  proof (cases "total_tokens sel + token_count c \<le> rem")
    case True
    from Cons [of "sel @ [c]"] True show ?thesis by simp
  next
    case False
    show ?thesis
    proof (cases "rem - total_tokens sel > 100")
      case True
      with False show ?thesis
        by (auto split: option.splits dest!: try_compress_fits)
    next
      case F: False
      from Cons [of sel] False F show ?thesis by simp
    qed
  qed
qed

lemma active_system_contexts:
  "filter (\<lambda>c. ctx_type c = ''system'') (filter_active_contexts now xs)
     = filter (\<lambda>c. ctx_type c = ''system'' \<and> \<not> is_expired now c) xs"
  unfolding filter_active_contexts_def by (induction xs) auto

lemma optimize_hybrid_dominated:
  "T - total_tokens (filter (\<lambda>c. ctx_type c = ''system'' \<and> \<not> is_expired now c) xs) \<le> 0 \<Longrightarrow>
   optimize_hybrid tk now xs T = filter (\<lambda>c. ctx_type c = ''system'' \<and> \<not> is_expired now c) xs"
  unfolding optimize_hybrid_def Let_def active_system_contexts by simp

lemma optimize_hybrid_budget:
  assumes "0 \<le> total_tokens (filter (\<lambda>c. ctx_type c = ''system'' \<and> \<not> is_expired now c) xs)"
    and "total_tokens (filter (\<lambda>c. ctx_type c = ''system'' \<and> \<not> is_expired now c) xs) \<le> T"
  shows "total_tokens (optimize_hybrid tk now xs T) \<le> T"
proof -
  let ?S = "filter (\<lambda>c. ctx_type c = ''system'' \<and> \<not> is_expired now c) xs"
  show ?thesis
  proof (cases "T - total_tokens ?S \<le> 0")
    case True
    from optimize_hybrid_dominated [OF True] assms show ?thesis by simp
  next
    case False
    have "total_tokens (hybrid_loop tk (T - total_tokens ?S)
            (calculate_composite_scores now
               (filter (\<lambda>c. ctx_type c \<noteq> ''system'') (filter_active_contexts now xs)))
            ?S (total_tokens ?S)) \<le> max (total_tokens ?S) (T - total_tokens ?S)"
      by (rule hybrid_loop_budget)
    with False assms show ?thesis
      unfolding optimize_hybrid_def Let_def active_system_contexts by simp
  qed
qed

lemma optimize_hybrid_fixed:
  assumes "T - total_tokens (filter (\<lambda>c. ctx_type c = ''system'' \<and> \<not> is_expired now c) xs) \<le> 0"
  shows "optimize_hybrid tk now (filter (\<lambda>c. ctx_type c = ''system'' \<and> \<not> is_expired now c) xs) T
         = filter (\<lambda>c. ctx_type c = ''system'' \<and> \<not> is_expired now c) xs"
proof -
  let ?S = "filter (\<lambda>c. ctx_type c = ''system'' \<and> \<not> is_expired now c) xs"
  have idem: "filter (\<lambda>c. ctx_type c = ''system'' \<and> \<not> is_expired now c) ?S = ?S" by simp
  from assms have "T - total_tokens (filter (\<lambda>c. ctx_type c = ''system'' \<and> \<not> is_expired now c) ?S) \<le> 0"
    by (simp only: idem)
  from optimize_hybrid_dominated [OF this] show ?thesis by (simp only: idem)
qed

lemma sorted_reverse_Nil [simp]: "sorted_reverse k [] = []"
  by (simp add: sorted_reverse_def)

lemma plain_strategy_budget:
  assumes "strategy \<in> set [''priority_based'', ''recency_based'', ''relevance_based'',
     ''compression'', ''semantic_grouping'']"
  shows "total_tokens (apply_strategy tk now strategy xs T) \<le> T
         \<or> apply_strategy tk now strategy xs T = []"
  using assms greedy_fill_budget0 relevance_loop_budget0 compression_loop_budget0
  unfolding apply_strategy_def optimize_by_priority_def optimize_by_recency_def
    optimize_by_relevance_def optimize_by_compression_def optimize_by_semantic_grouping_def Let_def
  by auto

lemma plain_strategy_Nil:
  assumes "strategy \<in> set [''priority_based'', ''recency_based'', ''relevance_based'',
     ''compression'', ''semantic_grouping'']"
  shows "apply_strategy tk now strategy [] T = []"
  using assms
  unfolding apply_strategy_def optimize_by_priority_def optimize_by_recency_def
    optimize_by_relevance_def optimize_by_compression_def optimize_by_semantic_grouping_def Let_def
    update_relevance_scores_def group_contexts_semantically_def
  by auto

lemma hybrid_strategy:
  "strategy \<notin> set [''priority_based'', ''recency_based'', ''relevance_based'',
     ''compression'', ''semantic_grouping''] \<Longrightarrow>
   apply_strategy tk now strategy xs T = optimize_hybrid tk now xs T"
  unfolding apply_strategy_def by auto

lemma optimize_contexts_fst:
  "fst (optimize_contexts tk m now xs target strategy) =
     (if total_tokens xs \<le> effective_target m target then xs
      else apply_strategy tk now strategy xs (effective_target m target))"
  unfolding optimize_contexts_def Let_def by simp

lemma apply_strategy_stable:
  assumes nonneg: "\<forall>c\<in>set xs. 0 \<le> token_count c"
  shows "total_tokens (apply_strategy tk now strategy xs T) \<le> T
         \<or> apply_strategy tk now strategy (apply_strategy tk now strategy xs T) T
             = apply_strategy tk now strategy xs T"
proof (cases "strategy \<in> set [''priority_based'', ''recency_based'', ''relevance_based'',
     ''compression'', ''semantic_grouping'']")
  case True
  from plain_strategy_budget [OF True, of tk now xs T] plain_strategy_Nil [OF True, of tk now T]
  show ?thesis by auto
next
  case False
  let ?S = "filter (\<lambda>c. ctx_type c = ''system'' \<and> \<not> is_expired now c) xs"
  have h: "\<And>ys. apply_strategy tk now strategy ys T = optimize_hybrid tk now ys T"
    using hybrid_strategy [OF False] by simp
  have S0: "0 \<le> total_tokens ?S" using nonneg by (intro total_tokens_nonneg) simp
  show ?thesis
  proof (cases "T - total_tokens ?S \<le> 0")
    case True
    from optimize_hybrid_dominated [OF True] optimize_hybrid_fixed [OF True]
    show ?thesis unfolding h by simp
  next
    case F: False
    then have "total_tokens ?S \<le> T" by simp
    from optimize_hybrid_budget [OF S0 this] show ?thesis unfolding h by simp
  qed
qed

text \<open>
  Claim C6 (idempotence). For items whose token counts are not negative, every tokenizer,
  every \<open>max_tokens\<close>, every target (absent or given), every strategy name and every \<open>now\<close>:
  the items that \<^verbatim>\<open>optimize_contexts\<close> selects from its own selection are that selection.
  Either the selection is within the target, and the second call returns it as it is, or
  the strategy is the hybrid one on a list whose system items alone reach the target, and
  the selection is the list of these system items, which the hybrid strategy reproduces.
\<close>

theorem C6_optimize_idempotent:
  assumes "\<forall>c\<in>set items. 0 \<le> token_count c"
  shows "fst (optimize_contexts tk m now
                (fst (optimize_contexts tk m now items target strategy)) target strategy)
         = fst (optimize_contexts tk m now items target strategy)"
proof (cases "total_tokens items \<le> effective_target m target")
  case True
  then show ?thesis by (simp add: optimize_contexts_fst)
next
  case False
  from apply_strategy_stable [OF assms, of tk now strategy "effective_target m target"] False
  show ?thesis by (auto simp add: optimize_contexts_fst)
qed

theorem C6_optimize_idempotent_witness:
  "0 \<le> token_count (scenario_A 0) \<and> 0 \<le> token_count (scenario_B 0)
   \<and> 0 \<le> token_count (scenario_C 0)
   \<and> fst (optimize_contexts None 1000 0 [scenario_A 0, scenario_B 0, scenario_C 0]
            (Some 1000) ''hybrid'') = [scenario_A 0]
   \<and> fst (optimize_contexts None 1000 0 [scenario_A 0] (Some 1000) ''hybrid'') = [scenario_A 0]"
proof -
  have nonneg: "\<forall>c\<in>set [scenario_A 0, scenario_B 0, scenario_C 0]. 0 \<le> token_count c"
    by (simp add: scenario_A_def scenario_B_def scenario_C_def)
  have first: "fst (optimize_contexts None 1000 0 [scenario_A 0, scenario_B 0, scenario_C 0]
            (Some 1000) ''hybrid'') = [scenario_A 0]"
    by (simp add: optimize_contexts_fst effective_target_def apply_strategy_def scenario_hybrid)
      (simp add: total_tokens_def scenario_A_def scenario_B_def scenario_C_def)
  from C6_optimize_idempotent [OF nonneg, of None 1000 0 "Some 1000" "''hybrid''"] nonneg first
  show ?thesis by simp
qed

text \<open>
  Claim C1 (budget invariant) as it is written fails on the code at three inputs. With the
  target 0 and one general item of 5 tokens there are no system tokens, yet the item is
  returned: \<^verbatim>\<open>target_tokens or int(self.max_tokens * 0.9)\<close> replaces 0 by 90000. With two
  system items of 800 tokens each and the target 1000 the strategy \<open>priority_based\<close> returns
  the first alone: only the hybrid strategy sets system items apart. With a system item
  whose expiry has passed the hybrid strategy drops it before it looks at the types.
\<close>

theorem C1_claim_fails:
  "ctx_type small_item \<noteq> ''system''
   \<and> fst (optimize_contexts None 100000 0 [small_item] (Some 0) ''priority_based'') = [small_item]
   \<and> token_count small_item = 5
   \<and> ctx_type (scenario_A 0) = ''system'' \<and> ctx_type (scenario_S2 0) = ''system''
   \<and> total_tokens [scenario_A 0, scenario_S2 0] = 1600
   \<and> fst (optimize_contexts None 100000 0 [scenario_A 0, scenario_S2 0] (Some 1000)
            ''priority_based'') = [scenario_A 0]
   \<and> ctx_type expired_system_item = ''system'' \<and> is_expired 1000 expired_system_item
   \<and> total_tokens [scenario_A 1000, expired_system_item] = 1600
   \<and> fst (optimize_contexts None 100000 1000 [scenario_A 1000, expired_system_item] (Some 1000)
            ''hybrid'') = [scenario_A 1000]"
  by (simp add: optimize_contexts_fst effective_target_def py_int_def apply_strategy_def
      optimize_by_priority_def sorted_reverse_def optimize_hybrid_def filter_active_contexts_def
      calculate_composite_scores_def is_expired_def
      small_item_def scenario_A_def scenario_S2_def expired_system_item_def less_eq_prod_def)

text \<open>
  Claim C1 (budget invariant), amended. For items whose token counts are not negative and a
  target other than 0: when the tokens of the system items are at most the target, the
  selection of every strategy totals at most the target; and under the hybrid strategy
  (the name \<open>hybrid\<close> and every name that is not one of the five others), when the tokens
  of the system items that have not expired exceed the target, the selection is the list
  of exactly these items, in their order in the input.
\<close>

theorem C1_budget_invariant_amended:
  assumes nonneg: "\<forall>c\<in>set items. 0 \<le> token_count c" and T: "T \<noteq> 0"
  shows "(total_tokens (filter (\<lambda>c. ctx_type c = ''system'') items) \<le> T \<longrightarrow>
            total_tokens (fst (optimize_contexts tk m now items (Some T) strategy)) \<le> T)
         \<and> (strategy \<notin> set [''priority_based'', ''recency_based'', ''relevance_based'',
                ''compression'', ''semantic_grouping''] \<longrightarrow>
            T < total_tokens (filter (\<lambda>c. ctx_type c = ''system'' \<and> \<not> is_expired now c) items) \<longrightarrow>
            fst (optimize_contexts tk m now items (Some T) strategy)
              = filter (\<lambda>c. ctx_type c = ''system'' \<and> \<not> is_expired now c) items)"
proof (intro conjI impI)
  let ?S = "filter (\<lambda>c. ctx_type c = ''system'' \<and> \<not> is_expired now c) items"
  let ?A = "filter (\<lambda>c. ctx_type c = ''system'') items"
  have eff: "effective_target m (Some T) = T" using T by (simp add: effective_target_def)
  have S0: "0 \<le> total_tokens ?S" using nonneg by (intro total_tokens_nonneg) simp
  have "?S = filter (\<lambda>c. \<not> is_expired now c) ?A" by (simp add: conj_commute)
  moreover have "total_tokens (filter (\<lambda>c. \<not> is_expired now c) ?A) \<le> total_tokens ?A"
    using nonneg by (intro total_tokens_filter_le) simp
  ultimately have SA: "total_tokens ?S \<le> total_tokens ?A" by simp
  {
    assume sys: "total_tokens ?A \<le> T"
    show "total_tokens (fst (optimize_contexts tk m now items (Some T) strategy)) \<le> T"
    proof (cases "total_tokens items \<le> T")
      case True
      then show ?thesis by (simp add: optimize_contexts_fst eff)
    next
      case False
      have T0: "0 \<le> T" using S0 SA sys by simp
      have "total_tokens (apply_strategy tk now strategy items T) \<le> T"
      proof (cases "strategy \<in> set [''priority_based'', ''recency_based'', ''relevance_based'',
                ''compression'', ''semantic_grouping'']")
        case True
        from plain_strategy_budget [OF True, of tk now items T] T0 show ?thesis by auto
      next
        case F: False
        have "total_tokens ?S \<le> T" using SA sys by simp
        from optimize_hybrid_budget [OF S0 this] show ?thesis
          by (simp add: hybrid_strategy [OF F])
      qed
      with False show ?thesis by (simp add: optimize_contexts_fst eff)
    qed
  }
  {
    assume hyb: "strategy \<notin> set [''priority_based'', ''recency_based'', ''relevance_based'',
                ''compression'', ''semantic_grouping'']"
      and dom: "T < total_tokens ?S"
    have "total_tokens ?S \<le> total_tokens items"
      using nonneg by (rule total_tokens_filter_le)
    with dom have over: "\<not> total_tokens items \<le> T" by simp
    from dom have "T - total_tokens ?S \<le> 0" by simp
    from optimize_hybrid_dominated [OF this] over
    show "fst (optimize_contexts tk m now items (Some T) strategy) = ?S"
      by (simp add: optimize_contexts_fst eff hybrid_strategy [OF hyb])
  }
qed

theorem C1_budget_invariant_amended_witness:
  "total_tokens (fst (optimize_contexts None 1000 0 [scenario_A 0, scenario_B 0, scenario_C 0]
                        (Some 1000) ''hybrid'')) \<le> 1000
   \<and> fst (optimize_contexts None 1000 0 [scenario_A 0, scenario_B 0] (Some 500) ''hybrid'')
       = [scenario_A 0]"
  using C1_budget_invariant_amended [of "[scenario_A 0, scenario_B 0, scenario_C 0]" 1000 None 1000 0
      "''hybrid''"]
    C1_budget_invariant_amended [of "[scenario_A 0, scenario_B 0]" 500 None 1000 0 "''hybrid''"]
  by (simp add: scenario_A_def scenario_B_def scenario_C_def is_expired_def)

section \<open>Compression of the boundary item\<close>

lemma try_compress_context_fields:
  "try_compress_context tk c max_tokens = Some c' \<Longrightarrow>
   priority c' = max 1 (priority c - 1) \<and> relevance_score c' = 0.9 * relevance_score c
   \<and> tags c' = tags c @ [''compressed''] \<and> ctx_id c' = ctx_id c \<and> ctx_type c' = ctx_type c
   \<and> timestamp c' = timestamp c \<and> metadata c' = metadata c \<and> expiry c' = expiry c
   \<and> token_count c' = count_tokens tk (content c')"
  by (auto simp: try_compress_context_def split: if_splits option.splits)

lemma hybrid_loop_shape:
  "\<exists>taken. set taken \<subseteq> set xs
     \<and> (hybrid_loop tk rem xs sel cur = sel @ taken
        \<or> (\<exists>c\<in>set xs. \<exists>m c'. try_compress_context tk c m = Some c'
              \<and> hybrid_loop tk rem xs sel cur = sel @ taken @ [c']))"
proof (induction xs arbitrary: sel cur)
  case Nil
  show ?case by (rule exI [of _ "[]"]) simp
next
  case (Cons x xs)
  show ?case
  proof (cases "cur + token_count x \<le> rem")
    case True
    from Cons [of "sel @ [x]" "cur + token_count x"] obtain taken where
      t: "set taken \<subseteq> set xs"
        "hybrid_loop tk rem xs (sel @ [x]) (cur + token_count x) = (sel @ [x]) @ taken
         \<or> (\<exists>c\<in>set xs. \<exists>m c'. try_compress_context tk c m = Some c'
              \<and> hybrid_loop tk rem xs (sel @ [x]) (cur + token_count x) = (sel @ [x]) @ taken @ [c'])"
      by blast
    show ?thesis
      by (rule exI [of _ "x # taken"]) (use True t in auto)
  next
    case False
    show ?thesis
    proof (cases "rem - cur > 100")
      case True
      show ?thesis
        by (rule exI [of _ "[]"]) (use False True in \<open>auto split: option.splits\<close>)
    next
      case F: False
      from Cons [of sel cur] obtain taken where
        t: "set taken \<subseteq> set xs"
          "hybrid_loop tk rem xs sel cur = sel @ taken
           \<or> (\<exists>c\<in>set xs. \<exists>m c'. try_compress_context tk c m = Some c'
                \<and> hybrid_loop tk rem xs sel cur = sel @ taken @ [c'])"
        by blast
      show ?thesis
        by (rule exI [of _ taken]) (use False F t in auto)
    qed
  qed
qed

lemma set_calculate_composite_scores:
  "set (calculate_composite_scores now xs)
     = (\<lambda>c. c\<lparr>relevance_score := composite_score now c\<rparr>) ` set xs"
  by (simp add: calculate_composite_scores_def sorted_reverse_def)

lemma collapse_spaces:
  "collapse_whitespace True (replicate n (CHR '' '') @ s) = collapse_whitespace True s"
  by (induction n) (simp_all add: isspace_def)

lemma compress_spaced_text: "compress_content None spaced_text 150 = Some ''a b''"
proof -
  have 0: "count_tokens None spaced_text = 200"
    by (simp add: count_tokens_def spaced_text_def)
  have 1: "strip spaced_text = spaced_text"
    by (simp add: strip_def spaced_text_def isspace_def)
  have 2: "collapse_whitespace False spaced_text = ''a b''"
    by (simp add: spaced_text_def collapse_spaces) (simp add: isspace_def)
  have 3: "fold (\<lambda>w s. remove_word w False 0 s) filler_words ''a b'' = ''a b''"
    by (simp add: filler_words_def lower_def lower_char_def is_word_char_def)
  have 4: "count_tokens None ''a b'' = 1" by (simp add: count_tokens_def)
  show ?thesis by (simp add: compress_content_def 0 1 2 3 4)
qed

lemma hybrid_spaced_item:
  "optimize_hybrid None 0 [spaced_item] 150
     = [spaced_item\<lparr>content := ''a b'', priority := 4, token_count := 1,
                    relevance_score := 693 / 1000, tags := [''compressed'']\<rparr>]"
  by (simp add: optimize_hybrid_def Let_def filter_active_contexts_def is_expired_def
      calculate_composite_scores_def sorted_reverse_def composite_score_def type_bonus_def
      recency_weight_def max_age_hours_def microseconds_per_hour_def try_compress_context_def
      spaced_item_def
      compress_spaced_text total_tokens_def count_tokens_def)

text \<open>
  Claim C10 (compression penalty) as it is written fails on the code. The hybrid strategy
  is given one conversation item of 200 tokens with the relevance score 1 and the
  target 150. It writes the composite score 0.77 into the item of the caller and then
  compresses that item: the copy has the relevance score 0.693, which is 0.9 times the
  composite score and not 0.9 times the score 1 that the item had, and the item of the
  caller is left with the relevance score 0.77.
\<close>

theorem C10_claim_fails:
  "relevance_score spaced_item = 1
   \<and> optimize_hybrid None 0 [spaced_item] 150
       = [spaced_item\<lparr>content := ''a b'', priority := 4, token_count := 1,
                      relevance_score := 693 / 1000, tags := [''compressed'']\<rparr>]
   \<and> hybrid_contexts_after 0 [spaced_item] 150 = [spaced_item\<lparr>relevance_score := 77 / 100\<rparr>]"
  by (simp add: hybrid_spaced_item)
    (simp add: hybrid_contexts_after_def Let_def filter_active_contexts_def is_expired_def
      composite_score_def type_bonus_def recency_weight_def max_age_hours_def
      microseconds_per_hour_def spaced_item_def total_tokens_def)

text \<open>
  Claim C10 (compression penalty), amended. The result of the hybrid strategy is a list
  of items of the input, as they are or with the composite score as relevance score,
  followed by at most one further item. That item is the compressed copy of an item \<open>c\<close>
  of the input: its priority is \<open>max 1 (priority c - 1)\<close>, its relevance score is 0.9 times
  the composite score of \<open>c\<close>, its tags are those of \<open>c\<close> followed by \<open>compressed\<close>, its
  identifier, type, time stamp, metadata and expiry are those of \<open>c\<close>, and its token count
  is the measure of its content. After the call the items of the caller differ from what
  they were in the relevance score at most.
\<close>

theorem C10_hybrid_compression_penalty:
  "(\<exists>kept. set kept \<subseteq> set items
              \<union> (\<lambda>c. c\<lparr>relevance_score := composite_score now c\<rparr>) ` set items
      \<and> (optimize_hybrid tk now items target_tokens = kept
         \<or> (\<exists>c\<in>set items. \<exists>c'.
               optimize_hybrid tk now items target_tokens = kept @ [c']
               \<and> priority c' = max 1 (priority c - 1)
               \<and> relevance_score c' = 0.9 * composite_score now c
               \<and> tags c' = tags c @ [''compressed''] \<and> ctx_id c' = ctx_id c
               \<and> ctx_type c' = ctx_type c \<and> timestamp c' = timestamp c
               \<and> metadata c' = metadata c \<and> expiry c' = expiry c
               \<and> token_count c' = count_tokens tk (content c'))))
   \<and> map (relevance_score_update (\<lambda>_. 0)) (hybrid_contexts_after now items target_tokens)
       = map (relevance_score_update (\<lambda>_. 0)) items"
proof
  let ?A = "filter_active_contexts now items"
  let ?S = "filter (\<lambda>c. ctx_type c = ''system'') ?A"
  let ?N = "filter (\<lambda>c. ctx_type c \<noteq> ''system'') ?A"
  let ?sc = "\<lambda>c. c\<lparr>relevance_score := composite_score now c\<rparr>"
  let ?rem = "target_tokens - total_tokens ?S"
  have S: "set ?S \<subseteq> set items" by (auto simp add: filter_active_contexts_def)
  have N: "set ?N \<subseteq> set items" by (auto simp add: filter_active_contexts_def)
  show "\<exists>kept. set kept \<subseteq> set items \<union> ?sc ` set items
      \<and> (optimize_hybrid tk now items target_tokens = kept
         \<or> (\<exists>c\<in>set items. \<exists>c'.
               optimize_hybrid tk now items target_tokens = kept @ [c']
               \<and> priority c' = max 1 (priority c - 1)
               \<and> relevance_score c' = 0.9 * composite_score now c
               \<and> tags c' = tags c @ [''compressed''] \<and> ctx_id c' = ctx_id c
               \<and> ctx_type c' = ctx_type c \<and> timestamp c' = timestamp c
               \<and> metadata c' = metadata c \<and> expiry c' = expiry c
               \<and> token_count c' = count_tokens tk (content c')))"
  proof (cases "?rem \<le> 0")
    case True
    then have "optimize_hybrid tk now items target_tokens = ?S"
      by (simp add: optimize_hybrid_def Let_def)
    with S show ?thesis by (intro exI [of _ ?S]) auto
  next
    case False
    then have opt: "optimize_hybrid tk now items target_tokens
        = hybrid_loop tk ?rem (calculate_composite_scores now ?N) ?S (total_tokens ?S)"
      by (simp add: optimize_hybrid_def Let_def)
    from hybrid_loop_shape [of "calculate_composite_scores now ?N" tk ?rem ?S "total_tokens ?S"]
    obtain taken where t: "set taken \<subseteq> set (calculate_composite_scores now ?N)"
      and h: "hybrid_loop tk ?rem (calculate_composite_scores now ?N) ?S (total_tokens ?S) = ?S @ taken
        \<or> (\<exists>c\<in>set (calculate_composite_scores now ?N). \<exists>m c'.
              try_compress_context tk c m = Some c'
              \<and> hybrid_loop tk ?rem (calculate_composite_scores now ?N) ?S (total_tokens ?S)
                  = ?S @ taken @ [c'])"
      by blast
    have t': "set taken \<subseteq> ?sc ` set items"
      using t N unfolding set_calculate_composite_scores by blast
    have kept: "set (?S @ taken) \<subseteq> set items \<union> ?sc ` set items"
      using S t' by auto
    from h show ?thesis
    proof
      assume "hybrid_loop tk ?rem (calculate_composite_scores now ?N) ?S (total_tokens ?S) = ?S @ taken"
      with kept opt show ?thesis by (intro exI [of _ "?S @ taken"]) simp
    next
      assume "\<exists>c\<in>set (calculate_composite_scores now ?N). \<exists>m c'.
              try_compress_context tk c m = Some c'
              \<and> hybrid_loop tk ?rem (calculate_composite_scores now ?N) ?S (total_tokens ?S)
                  = ?S @ taken @ [c']"
      then obtain c m c' where c: "c \<in> set (calculate_composite_scores now ?N)"
        and tc: "try_compress_context tk c m = Some c'"
        and hl: "hybrid_loop tk ?rem (calculate_composite_scores now ?N) ?S (total_tokens ?S)
                  = ?S @ taken @ [c']"
        by blast
      from c obtain c0 where c0: "c0 \<in> set items" "c = ?sc c0"
        using N unfolding set_calculate_composite_scores by blast
      from try_compress_context_fields [OF tc] c0(2)
      have f: "priority c' = max 1 (priority c0 - 1)
               \<and> relevance_score c' = 0.9 * composite_score now c0
               \<and> tags c' = tags c0 @ [''compressed''] \<and> ctx_id c' = ctx_id c0
               \<and> ctx_type c' = ctx_type c0 \<and> timestamp c' = timestamp c0
               \<and> metadata c' = metadata c0 \<and> expiry c' = expiry c0
               \<and> token_count c' = count_tokens tk (content c')"
        by simp
      from opt hl have "optimize_hybrid tk now items target_tokens = (?S @ taken) @ [c']"
        by simp
      with kept f c0(1) show ?thesis by (intro exI [of _ "?S @ taken"]) blast
    qed
  qed
next
  show "map (relevance_score_update (\<lambda>_. 0)) (hybrid_contexts_after now items target_tokens)
       = map (relevance_score_update (\<lambda>_. 0)) items"
    by (simp add: hybrid_contexts_after_def Let_def)
qed

theorem C10_hybrid_compression_penalty_witness:
  "optimize_hybrid None 0 [spaced_item] 150
     = [] @ [spaced_item\<lparr>content := ''a b'', priority := 4, token_count := 1,
                    relevance_score := 693 / 1000, tags := [''compressed'']\<rparr>]
   \<and> priority (spaced_item\<lparr>content := ''a b'', priority := 4, token_count := 1,
                    relevance_score := 693 / 1000, tags := [''compressed'']\<rparr>)
       = max 1 (priority spaced_item - 1)
   \<and> relevance_score (spaced_item\<lparr>content := ''a b'', priority := 4, token_count := 1,
                    relevance_score := 693 / 1000, tags := [''compressed'']\<rparr>)
       = 0.9 * composite_score 0 spaced_item
   \<and> map (relevance_score_update (\<lambda>_. 0)) (hybrid_contexts_after 0 [spaced_item] 150)
       = map (relevance_score_update (\<lambda>_. 0)) [spaced_item]"
  using C10_hybrid_compression_penalty [of "[spaced_item]" 0 None 150] hybrid_spaced_item
  by (simp add: composite_score_def type_bonus_def recency_weight_def max_age_hours_def
      spaced_item_def)

section \<open>Budget of the store\<close>









lemma set_sorted_reverse [simp]: "set (sorted_reverse k xs) = set xs"
  by (simp add: sorted_reverse_def)

lemma distinct_sorted_reverse [simp]: "distinct (sorted_reverse k xs) = distinct xs"
  by (simp add: sorted_reverse_def)
















section \<open>Required sections that exceed the window\<close>

















end
